theory Spec2Isabelle
  imports
    Main
    "HOL-Library.Char_ord"
    "HOL-Library.List_Lexorder"
    "HOL-Library.Product_Lexorder"
    "HOL-Library.Sublist"
    "HOL-Library.Multiset"
begin

section \<open>Python values and library functions used by \<^verbatim>\<open>main.py\<close>\<close>

text \<open>
  The export is whatever \<^verbatim>\<open>json.load\<close> returns: \<^verbatim>\<open>None\<close>, a bool, an int, a str, a
  list or a dict with str keys. A Python \<^verbatim>\<open>str\<close> is represented by its UTF-8 encoding
  (a \<open>char list\<close>), so that the lexicographic order on \<open>string\<close> is Python's order
  by code point. A dict is the list of its items in insertion order; its keys are
  distinct, as \<^verbatim>\<open>json.load\<close> leaves them. JSON numbers with a fraction or an exponent
  (Python floats) are outside the model.
\<close>

datatype json =
    JNull
  | JBool bool
  | JInt int
  | JStr string
  | JList "json list"
  | JObj "(string \<times> json) list"

datatype pyerr =
    AttributeError
  | TypeError
  | ValueError
  | OSError
  | FileNotFoundError string
  | RuntimeError string

text \<open>Truth value testing: what \<^verbatim>\<open>if x\<close>, \<^verbatim>\<open>not x\<close>, \<^verbatim>\<open>x or y\<close> and \<^verbatim>\<open>bool(x)\<close> read.\<close>

fun truthy :: "json \<Rightarrow> bool" where
  "truthy JNull = False"
| "truthy (JBool b) = b"
| "truthy (JInt n) = (n \<noteq> 0)"
| "truthy (JStr s) = (s \<noteq> [])"
| "truthy (JList xs) = (xs \<noteq> [])"
| "truthy (JObj kvs) = (kvs \<noteq> [])"

definition py_or :: "json \<Rightarrow> json \<Rightarrow> json" where
  "py_or a b = (if truthy a then a else b)"

text \<open>\<^verbatim>\<open>d.get(key, default)\<close>: only a dict has the method.\<close>

fun dict_get :: "json \<Rightarrow> string \<Rightarrow> json \<Rightarrow> pyerr + json" where
  "dict_get (JObj kvs) k d = Inr (case map_of kvs k of Some v \<Rightarrow> v | None \<Rightarrow> d)"
| "dict_get _ k d = Inl AttributeError"

text \<open>
  \<^verbatim>\<open>for x in v\<close>: a list yields its elements, a dict its keys, a str its characters (here
  one element per byte of the encoding: the loops below only call \<^verbatim>\<open>.get\<close> on the
  elements, which no str has); nothing else is iterable.
\<close>

fun py_iter :: "json \<Rightarrow> pyerr + json list" where
  "py_iter (JList xs) = Inr xs"
| "py_iter (JObj kvs) = Inr (map (\<lambda>kv. JStr (fst kv)) kvs)"
| "py_iter (JStr s) = Inr (map (\<lambda>c. JStr [c]) s)"
| "py_iter _ = Inl TypeError"

text \<open>
  Keys of a Python dict are compared by \<^verbatim>\<open>==\<close> and hash: \<^verbatim>\<open>True == 1\<close> and
  \<^verbatim>\<open>False == 0\<close>; lists and dicts are unhashable.
\<close>

datatype pykey = KNone | KInt int | KStr string

fun key_of :: "json \<Rightarrow> pyerr + pykey" where
  "key_of JNull = Inr KNone"
| "key_of (JBool b) = Inr (KInt (if b then 1 else 0))"
| "key_of (JInt n) = Inr (KInt n)"
| "key_of (JStr s) = Inr (KStr s)"
| "key_of (JList xs) = Inl TypeError"
| "key_of (JObj kvs) = Inl TypeError"

text \<open>\<^verbatim>\<open>str.replace(old, new)\<close>: every non-overlapping occurrence, leftmost first.\<close>

fun py_replace :: "string \<Rightarrow> string \<Rightarrow> string \<Rightarrow> string" where
  "py_replace old new [] = (if old = [] then new else [])"
| "py_replace old new (c # cs) =
     (if old = [] then new @ c # py_replace old new cs
      else if prefix old (c # cs)
        then new @ py_replace old new (drop (length old) (c # cs))
      else c # py_replace old new cs)"

text \<open>\<^verbatim>\<open>sep.join(parts)\<close>.\<close>

fun join :: "string \<Rightarrow> string list \<Rightarrow> string" where
  "join sep [] = []"
| "join sep [x] = x"
| "join sep (x # y # ys) = x @ sep @ join sep (y # ys)"

subsection \<open>The runtime: what depends on the version of Python and on the platform\<close>

text \<open>
  Four library functions that the program calls give results that differ between
  versions of Python and between platforms. They are fields of the runtime, and the
  program is read for every runtime:
  \<^item> \<^verbatim>\<open>str.lower()\<close>, whose case mapping is that of the Unicode database of the version;
  \<^item> \<^verbatim>\<open>repr\<close> of a str, whose escapes depend on the characters that this database calls
    printable;
  \<^item> \<^verbatim>\<open>datetime.fromisoformat\<close>, which reads more formats from Python 3.11 on than before
    (\<open>None\<close> is its \<^verbatim>\<open>ValueError\<close>);
  \<^item> the \<^verbatim>\<open>%Y\<close> of \<^verbatim>\<open>strftime\<close>, which the C library of some platforms pads to four
    digits and that of others leaves as the number is.

  A \<open>datetime\<close> holds the fields of a Python \<^verbatim>\<open>datetime\<close>; \<open>tzoffset\<close> is its offset
  from UTC in microseconds, when it has one.
\<close>

record datetime =
  year :: nat
  month :: nat
  day :: nat
  hour :: nat
  minute :: nat
  second :: nat
  microsecond :: nat
  tzoffset :: "int option"

record runtime =
  str_lower :: "string \<Rightarrow> string"
  str_repr :: "string \<Rightarrow> string"
  fromisoformat :: "string \<Rightarrow> datetime option"
  pads_year :: bool

text \<open>Decimal digits: the zero-padded fields of \<^verbatim>\<open>strftime\<close>, and \<^verbatim>\<open>str(n)\<close> of an int.\<close>

definition digit_char :: "nat \<Rightarrow> char" where
  "digit_char n = char_of (48 + n mod 10)"

definition pad2 :: "nat \<Rightarrow> string" where
  "pad2 n = [digit_char (n div 10), digit_char n]"

definition pad4 :: "nat \<Rightarrow> string" where
  "pad4 n = [digit_char (n div 1000), digit_char (n div 100), digit_char (n div 10), digit_char n]"

definition hour12 :: "nat \<Rightarrow> nat" where
  "hour12 h = (if h mod 12 = 0 then 12 else h mod 12)"

function dec :: "nat \<Rightarrow> string" where
  "dec n = (if n < 10 then [digit_char n] else dec (n div 10) @ [digit_char n])"
  by pat_completeness auto
termination
  by (relation "measure id") auto

declare dec.simps [simp del]

definition str_int :: "int \<Rightarrow> string" where
  "str_int i = (if i < 0 then ''-'' @ dec (nat (- i)) else dec (nat i))"

text \<open>\<^verbatim>\<open>dt.strftime("%m/%d/%Y %I:%M %p")\<close> in the C locale.\<close>

definition year_text :: "runtime \<Rightarrow> nat \<Rightarrow> string" where
  "year_text rt y = (if pads_year rt then pad4 y else dec y)"

definition strftime_fmt :: "runtime \<Rightarrow> datetime \<Rightarrow> string" where
  "strftime_fmt rt dt =
     pad2 (month dt) @ ''/'' @ pad2 (day dt) @ ''/'' @ year_text rt (year dt) @ '' '' @
     pad2 (hour12 (hour dt)) @ '':'' @ pad2 (minute dt) @ '' '' @
     (if hour dt < 12 then ''AM'' else ''PM'')"

section \<open>The export normalizer\<close>

text \<open>
  \<^verbatim>\<open>normalize_datetime\<close> (lines 72-80): a falsy value gives the empty string; a str that
  \<^verbatim>\<open>fromisoformat\<close> refuses is returned as it came; any other truthy value has no
  \<^verbatim>\<open>replace\<close> method.
\<close>

definition normalize_datetime :: "runtime \<Rightarrow> json \<Rightarrow> pyerr + string" where
  "normalize_datetime rt v =
     (if \<not> truthy v then Inr []
      else case v of
        JStr s \<Rightarrow>
          (case fromisoformat rt (py_replace ''Z'' ''+00:00'' s) of
            None \<Rightarrow> Inr s
          | Some dt \<Rightarrow> Inr (strftime_fmt rt dt))
      | _ \<Rightarrow> Inl AttributeError)"

subsection \<open>\<^verbatim>\<open>str(x)\<close> and \<^verbatim>\<open>repr(x)\<close>, which the f-string of the custom fields calls\<close>

fun py_repr :: "runtime \<Rightarrow> json \<Rightarrow> string" where
  "py_repr rt JNull = ''None''"
| "py_repr rt (JBool b) = (if b then ''True'' else ''False'')"
| "py_repr rt (JInt n) = str_int n"
| "py_repr rt (JStr s) = str_repr rt s"
| "py_repr rt (JList xs) = ''['' @ join '', '' (map (py_repr rt) xs) @ '']''"
| "py_repr rt (JObj kvs) =
     ''{'' @ join '', '' (map (\<lambda>kv. str_repr rt (fst kv) @ '': '' @ py_repr rt (snd kv)) kvs)
     @ ''}''"

fun py_str :: "runtime \<Rightarrow> json \<Rightarrow> string" where
  "py_str rt (JStr s) = s"
| "py_str rt v = py_repr rt v"

subsection \<open>\<^verbatim>\<open>collect_accounts\<close> (lines 83-118)\<close>

text \<open>
  An account is the dict that \<^verbatim>\<open>collect_accounts\<close> appends. The values that the code
  copies from the export without looking at them keep the type \<open>json\<close>.
\<close>

record account =
  acc_name :: json
  acc_type :: string
  acc_folder :: json
  acc_favorite :: bool
  acc_username :: json
  acc_password :: json
  acc_totp :: json
  acc_uris :: "json list"
  acc_notes :: json
  acc_last_modified :: string
  acc_created :: string
  acc_fields :: "string list"

definition TYPE_NAMES :: "pykey \<rightharpoonup> string" where
  "TYPE_NAMES =
     [KInt 1 \<mapsto> ''Login'', KInt 2 \<mapsto> ''Secure Note'', KInt 3 \<mapsto> ''Card'',
      KInt 4 \<mapsto> ''Identity'']"

definition rbind :: "pyerr + 'a \<Rightarrow> ('a \<Rightarrow> pyerr + 'b) \<Rightarrow> pyerr + 'b" where
  "rbind m f = (case m of Inl e \<Rightarrow> Inl e | Inr x \<Rightarrow> f x)"

text \<open>\<^verbatim>\<open>d.get(k, default)\<close> on the items of a dict.\<close>

definition obj_lookup :: "(string \<times> json) list \<Rightarrow> string \<Rightarrow> json \<Rightarrow> json" where
  "obj_lookup kvs k d = (case map_of kvs k of Some v \<Rightarrow> v | None \<Rightarrow> d)"

text \<open>
  Line 84, the dict comprehension: each folder gives the key \<^verbatim>\<open>folder.get("id")\<close> and
  the value \<^verbatim>\<open>folder.get("name", "")\<close>; a later folder with the same id overwrites an
  earlier one.
\<close>

definition folder_entry :: "json \<Rightarrow> pyerr + (pykey \<times> json)" where
  "folder_entry f =
     rbind (dict_get f ''id'' JNull) (\<lambda>i.
     rbind (dict_get f ''name'' (JStr [])) (\<lambda>n.
     rbind (key_of i) (\<lambda>k. Inr (k, n))))"

fun build_folders :: "(pykey \<rightharpoonup> json) \<Rightarrow> json list \<Rightarrow> pyerr + (pykey \<rightharpoonup> json)" where
  "build_folders m [] = Inr m"
| "build_folders m (f # fs) =
     (case folder_entry f of
        Inl e \<Rightarrow> Inl e
      | Inr (k, n) \<Rightarrow> build_folders (m(k \<mapsto> n)) fs)"

text \<open>
  Lines 89-91: \<^verbatim>\<open>[uri.get("uri", "") for uri in ... if isinstance(uri, dict) and uri.get("uri")]\<close>.
\<close>

fun collect_uris :: "json list \<Rightarrow> json list" where
  "collect_uris [] = []"
| "collect_uris (JObj kvs # us) =
     (if truthy (obj_lookup kvs ''uri'' JNull)
      then obj_lookup kvs ''uri'' (JStr []) # collect_uris us
      else collect_uris us)"
| "collect_uris (u # us) = collect_uris us"

text \<open>Lines 93-98: one custom field; \<open>None\<close> is the \<^verbatim>\<open>continue\<close>.\<close>

definition field_entry :: "runtime \<Rightarrow> json \<Rightarrow> pyerr + string option" where
  "field_entry rt f =
     rbind (dict_get f ''name'' JNull) (\<lambda>n.
     rbind (dict_get f ''value'' JNull) (\<lambda>v.
       Inr (if \<not> truthy v then None
            else Some (py_str rt (py_or n (JStr ''Field'')) @ '': '' @ py_str rt v))))"

fun collect_fields :: "runtime \<Rightarrow> json list \<Rightarrow> pyerr + string list" where
  "collect_fields rt [] = Inr []"
| "collect_fields rt (f # fs) =
     (case field_entry rt f of
        Inl e \<Rightarrow> Inl e
      | Inr None \<Rightarrow> collect_fields rt fs
      | Inr (Some s) \<Rightarrow>
          (case collect_fields rt fs of Inl e \<Rightarrow> Inl e | Inr r \<Rightarrow> Inr (s # r)))"

text \<open>
  Lines 87-115, the body of the loop for one item. Every access to \<^verbatim>\<open>item\<close> and to
  \<^verbatim>\<open>login\<close> is a \<^verbatim>\<open>.get\<close>, so an item or a truthy login that is no dict raises at its
  first access.
\<close>

definition account_of_item ::
  "runtime \<Rightarrow> (pykey \<rightharpoonup> json) \<Rightarrow> json \<Rightarrow> pyerr + account" where
  "account_of_item rt folders item =
     (case item of
        JObj kvs \<Rightarrow>
          (case py_or (obj_lookup kvs ''login'' JNull) (JObj []) of
            JObj login \<Rightarrow>
              rbind (py_iter (obj_lookup login ''uris'' (JList []))) (\<lambda>uri_list.
              rbind (py_iter (py_or (obj_lookup kvs ''fields'' JNull) (JList []))) (\<lambda>field_list.
              rbind (collect_fields rt field_list) (\<lambda>custom_fields.
              rbind (key_of (obj_lookup kvs ''type'' JNull)) (\<lambda>type_key.
              rbind (key_of (obj_lookup kvs ''folderId'' JNull)) (\<lambda>folder_key.
              rbind (normalize_datetime rt
                      (py_or (obj_lookup kvs ''revisionDate'' JNull)
                             (obj_lookup kvs ''lastRevisionDate'' JNull))) (\<lambda>last_modified.
              rbind (normalize_datetime rt (obj_lookup kvs ''creationDate'' JNull)) (\<lambda>created.
                Inr \<lparr>acc_name = py_or (obj_lookup kvs ''name'' JNull) (JStr ''(untitled)''),
                     acc_type = (case TYPE_NAMES type_key of Some t \<Rightarrow> t | None \<Rightarrow> ''Unknown''),
                     acc_folder =
                       py_or (case folders folder_key of Some n \<Rightarrow> n | None \<Rightarrow> JNull)
                             (JStr ''No folder''),
                     acc_favorite = truthy (obj_lookup kvs ''favorite'' JNull),
                     acc_username = py_or (obj_lookup login ''username'' JNull) (JStr []),
                     acc_password = py_or (obj_lookup login ''password'' JNull) (JStr []),
                     acc_totp = py_or (obj_lookup login ''totp'' JNull) (JStr []),
                     acc_uris = collect_uris uri_list,
                     acc_notes = py_or (obj_lookup kvs ''notes'' JNull) (JStr []),
                     acc_last_modified = last_modified,
                     acc_created = created,
                     acc_fields = custom_fields\<rparr>)))))))
          | _ \<Rightarrow> Inl AttributeError)
      | _ \<Rightarrow> Inl AttributeError)"

fun collect_items ::
  "runtime \<Rightarrow> (pykey \<rightharpoonup> json) \<Rightarrow> json list \<Rightarrow> pyerr + account list" where
  "collect_items rt folders [] = Inr []"
| "collect_items rt folders (item # items) =
     (case account_of_item rt folders item of
        Inl e \<Rightarrow> Inl e
      | Inr a \<Rightarrow>
          (case collect_items rt folders items of
             Inl e \<Rightarrow> Inl e
           | Inr r \<Rightarrow> Inr (a # r)))"

text \<open>
  Line 117: \<^verbatim>\<open>accounts.sort(key=lambda entry: (entry["folder"].lower(), entry["name"].lower()))\<close>.
  The key of every entry is computed first (only a str has \<^verbatim>\<open>lower\<close>); the sort is
  stable, and tuples and strs compare lexicographically.
\<close>

definition entry_key :: "runtime \<Rightarrow> account \<Rightarrow> pyerr + (string \<times> string)" where
  "entry_key rt e =
     (case acc_folder e of
        JStr f \<Rightarrow> (case acc_name e of
                    JStr n \<Rightarrow> Inr (str_lower rt f, str_lower rt n)
                  | _ \<Rightarrow> Inl AttributeError)
      | _ \<Rightarrow> Inl AttributeError)"

fun decorate ::
  "runtime \<Rightarrow> account list \<Rightarrow> pyerr + ((string \<times> string) \<times> account) list" where
  "decorate rt [] = Inr []"
| "decorate rt (e # es) =
     (case entry_key rt e of
        Inl err \<Rightarrow> Inl err
      | Inr k \<Rightarrow>
          (case decorate rt es of Inl err \<Rightarrow> Inl err | Inr r \<Rightarrow> Inr ((k, e) # r)))"

definition sort_accounts :: "runtime \<Rightarrow> account list \<Rightarrow> pyerr + account list" where
  "sort_accounts rt accounts =
     rbind (decorate rt accounts) (\<lambda>kes. Inr (map snd (sort_key fst kes)))"

text \<open>The loop of lines 84-115, before the sort.\<close>

definition collect_unsorted :: "runtime \<Rightarrow> json \<Rightarrow> pyerr + account list" where
  "collect_unsorted rt payload =
     rbind (dict_get payload ''folders'' (JList [])) (\<lambda>fv.
     rbind (py_iter fv) (\<lambda>folder_list.
     rbind (build_folders Map.empty folder_list) (\<lambda>folders.
     rbind (dict_get payload ''items'' (JList [])) (\<lambda>iv.
     rbind (py_iter iv) (\<lambda>item_list.
       collect_items rt folders item_list)))))"

definition collect_accounts :: "runtime \<Rightarrow> json \<Rightarrow> pyerr + account list" where
  "collect_accounts rt payload = rbind (collect_unsorted rt payload) (sort_accounts rt)"

section \<open>The markup renderer\<close>

text \<open>
  \<^verbatim>\<open>html.escape(s)\<close> with its default \<^verbatim>\<open>quote=True\<close>: the five characters
  \<^verbatim>\<open>&\<close>, \<^verbatim>\<open><\<close>, \<^verbatim>\<open>>\<close>, the double and the single quote are replaced by their
  entities. Only a str has the \<^verbatim>\<open>replace\<close> method that it calls.
\<close>

definition escape_char :: "char \<Rightarrow> string" where
  "escape_char c =
     (if c = CHR ''&'' then ''&amp;''
      else if c = CHR ''<'' then ''&lt;''
      else if c = CHR ''>'' then ''&gt;''
      else if c = CHR 0x22 then ''&quot;''
      else if c = CHR 0x27 then ''&#x27;''
      else [c])"

definition escape :: "string \<Rightarrow> string" where
  "escape s = concat (map escape_char s)"

fun py_escape :: "json \<Rightarrow> pyerr + string" where
  "py_escape (JStr s) = Inr (escape s)"
| "py_escape v = Inl AttributeError"

text \<open>\<^verbatim>\<open>render_meta\<close> (lines 158-170).\<close>

definition folder_tag :: "runtime \<Rightarrow> json \<Rightarrow> pyerr + string list" where
  \<open>folder_tag rt folder =
     (if \<not> truthy folder then Inr []
      else case folder of
        JStr f \<Rightarrow>
          (if str_lower rt f \<noteq> ''no folder''
           then Inr [''<span class="tag">'' @ escape f @ ''</span>'']
           else Inr [])
      | _ \<Rightarrow> Inl AttributeError)\<close>

definition render_meta :: "runtime \<Rightarrow> account \<Rightarrow> pyerr + string" where
  \<open>render_meta rt entry =
     rbind (folder_tag rt (acc_folder entry)) (\<lambda>folder_tags.
       let tags = folder_tags
             @ (if acc_type entry \<noteq> []
                then [''<span class="tag">'' @ escape (acc_type entry) @ ''</span>''] else [])
             @ (if acc_favorite entry
                then [''<span class="tag tag--favorite">Favorite</span>''] else [])
       in if tags = [] then Inr ''<div class="entry-meta">None</div>''
          else Inr (''<div class="entry-meta">'' @ concat tags @ ''</div>''))\<close>

text \<open>\<^verbatim>\<open>render_credentials_extra\<close> (lines 173-180): the first URI and the TOTP secret.\<close>

definition render_credentials_extra :: "account \<Rightarrow> pyerr + string" where
  \<open>render_credentials_extra entry =
     rbind (case acc_uris entry of
              [] \<Rightarrow> Inr []
            | u # us \<Rightarrow> rbind (py_escape u) (\<lambda>primary. Inr [''<span>URL: '' @ primary @ ''</span>'']))
       (\<lambda>uri_bits.
     rbind (if truthy (acc_totp entry)
            then rbind (py_escape (acc_totp entry)) (\<lambda>t. Inr [''<span>2FA: '' @ t @ ''</span>''])
            else Inr [])
       (\<lambda>totp_bits. Inr (join [CHR 0x0A] (uri_bits @ totp_bits))))\<close>

text \<open>\<^verbatim>\<open>render_credentials_section\<close> (lines 183-202).\<close>

definition render_credentials_section :: "account \<Rightarrow> pyerr + string" where
  \<open>render_credentials_section entry =
     rbind (py_escape (py_or (acc_username entry) (JStr ''-''))) (\<lambda>username.
     rbind (py_escape (py_or (acc_password entry) (JStr ''-''))) (\<lambda>password.
     rbind (render_credentials_extra entry) (\<lambda>extras.
       let extra_html =
             (if extras \<noteq> [] then ''<div class="credentials-extra">'' @ extras @ ''</div>'' else [])
       in Inr (join [CHR 0x0A]
            [''<div class="credentials">'',
             ''  <div class="credential-block credential-block--user">'',
             ''    <span class="credential-label">Username / Email</span>'',
             ''    <span class="credential-value">'' @ username @ ''</span>'',
             ''  </div>'',
             ''  <div class="credential-block credential-block--password">'',
             ''    <span class="credential-label">Password</span>'',
             ''    <span class="credential-value">'' @ password @ ''</span>'',
             ''  </div>'',
             ''  '' @ extra_html,
             ''</div>'']))))\<close>

text \<open>\<^verbatim>\<open>build_rows\<close> (lines 139-155): one table row per entry, joined by newlines.\<close>

definition render_row :: "runtime \<Rightarrow> account \<Rightarrow> pyerr + string" where
  \<open>render_row rt entry =
     rbind (py_escape (py_or (acc_name entry) (JStr ''(untitled)''))) (\<lambda>name.
     rbind (render_meta rt entry) (\<lambda>meta.
     rbind (render_credentials_section entry) (\<lambda>credential_block.
       Inr (join [CHR 0x0A]
            [''<tr>'',
             ''  <td><div class="entry-name">'' @ name @ ''</div>'' @ meta @ ''</td>'',
             ''  <td>'' @ credential_block @ ''</td>'',
             ''</tr>'']))))\<close>

fun render_rows :: "runtime \<Rightarrow> account list \<Rightarrow> pyerr + string list" where
  "render_rows rt [] = Inr []"
| "render_rows rt (entry # entries) =
     (case render_row rt entry of
        Inl e \<Rightarrow> Inl e
      | Inr part \<Rightarrow>
          (case render_rows rt entries of
             Inl e \<Rightarrow> Inl e
           | Inr parts \<Rightarrow> Inr (part # parts)))"

definition build_rows :: "runtime \<Rightarrow> account list \<Rightarrow> pyerr + string" where
  "build_rows rt accounts =
     rbind (render_rows rt accounts) (\<lambda>parts. Inr (join [CHR 0x0A] parts))"

section \<open>The host: files, environment, clock and processes\<close>

text \<open>
  What the program reads from its host, and the effects it leaves there. The library
  functions of \<^verbatim>\<open>pathlib\<close>, \<^verbatim>\<open>shutil\<close> and \<^verbatim>\<open>platform\<close> are fields of the host; a path
  is the string that \<^verbatim>\<open>str(path)\<close> gives. \<open>set_order\<close> is the order in which a Python
  set of the given values is iterated: the language fixes no order, and the hashes of
  strs change from one run to the next. The existence of a path is taken not to change
  while the program runs. A process either exits, with a status and what it wrote to
  its standard error, or cannot be started, and then \<^verbatim>\<open>subprocess.run\<close> raises the
  exception given (a \<^verbatim>\<open>FileNotFoundError\<close>, a \<^verbatim>\<open>PermissionError\<close>). \<open>mkdir_error\<close> and
  \<open>write_error\<close> give the exception that making a directory and writing a file
  raise, if any. \<open>python\<close> is the runtime.
\<close>

datatype proc_outcome =
    Exited int string
  | SpawnFailed pyerr

record world =
  python :: runtime
  environ :: "string \<rightharpoonup> string"
  platform_system :: string
  path_exists :: "string \<Rightarrow> bool"
  which :: "string \<Rightarrow> string option"
  expanduser :: "string \<Rightarrow> string"
  joinpath :: "string \<Rightarrow> string list \<Rightarrow> string"
  set_order :: "string option list \<Rightarrow> string option list"
  parent :: "string \<Rightarrow> string"
  resolve :: "string \<Rightarrow> string"
  with_suffix :: "string \<Rightarrow> string \<Rightarrow> string"
  as_uri :: "string \<Rightarrow> string"
  read_text :: "string \<Rightarrow> pyerr + string"
  mkdir_error :: "string \<Rightarrow> pyerr option"
  write_error :: "string \<Rightarrow> pyerr option"
  now :: datetime
  TEMPLATE_PATH :: string
  STYLE_PATH :: string
  run_process :: "string list list \<Rightarrow> string list \<Rightarrow> proc_outcome"
  made_dirs :: "string list"
  written :: "(string \<times> string) list"
  invoked :: "string list list"

definition BROWSER_ENV_VAR :: string where
  "BROWSER_ENV_VAR = ''BITWARDEN_FORMATTER_BROWSER''"

text \<open>
  \<^verbatim>\<open>render_html\<close> (lines 121-136). The replacements are made one after the other, in
  the order of the dict, each on the whole text that the one before left.
\<close>

definition substitute :: "(string \<times> string) list \<Rightarrow> string \<Rightarrow> string" where
  "substitute replacements html =
     foldl (\<lambda>h kv. py_replace (''{{'' @ fst kv @ ''}}'') (snd kv) h) html replacements"

definition EMPTY_ROW :: string where
  \<open>EMPTY_ROW = ''<tr><td colspan="2" class="empty">No entries found</td></tr>''\<close>

definition replacements :: "world \<Rightarrow> account list \<Rightarrow> string \<Rightarrow> string \<Rightarrow> (string \<times> string) list" where
  "replacements w accounts title rows_html =
     [(''title'', escape title),
      (''generated'', strftime_fmt (python w) (now w)),
      (''count'', str_int (int (length accounts))),
      (''rows'', if rows_html \<noteq> [] then rows_html else EMPTY_ROW),
      (''style_href'', as_uri w (STYLE_PATH w))]"

definition render_html :: "world \<Rightarrow> account list \<Rightarrow> string \<Rightarrow> pyerr + string" where
  "render_html w accounts title =
     (if \<not> path_exists w (TEMPLATE_PATH w)
      then Inl (FileNotFoundError (''Missing HTML template: '' @ TEMPLATE_PATH w))
      else
        rbind (build_rows (python w) accounts) (\<lambda>rows_html.
        rbind (read_text w (TEMPLATE_PATH w)) (\<lambda>html.
          Inr (substitute (replacements w accounts title rows_html) html))))"

section \<open>The engine locator\<close>

text \<open>
  \<^verbatim>\<open>find_browser_binary\<close> (lines 217-296). \<^verbatim>\<open>add_candidate\<close> keeps a path that exists.
  On Windows the roots are the distinct values of three environment variables, taken
  from a set literal, and so in the order in which that set is iterated.
\<close>

definition known_suffixes :: "string list list" where
  "known_suffixes =
     [[''Microsoft'', ''Edge'', ''Application'', ''msedge.exe''],
      [''Microsoft'', ''Edge SxS'', ''Application'', ''msedge.exe''],
      [''Google'', ''Chrome'', ''Application'', ''chrome.exe''],
      [''Chromium'', ''Application'', ''chrome.exe'']]"

definition truthy_str :: "string option \<Rightarrow> bool" where
  "truthy_str p = (case p of None \<Rightarrow> False | Some s \<Rightarrow> s \<noteq> [])"

definition program_files :: "world \<Rightarrow> string list" where
  "program_files w =
     map the (filter truthy_str
       (set_order w [environ w ''PROGRAMFILES'', environ w ''PROGRAMFILES(X86)'',
                     environ w ''LOCALAPPDATA'']))"

definition mac_candidates :: "string list" where
  "mac_candidates =
     [''/Applications/Google Chrome.app/Contents/MacOS/Google Chrome'',
      ''/Applications/Google Chrome Canary.app/Contents/MacOS/Google Chrome Canary'',
      ''/Applications/Microsoft Edge.app/Contents/MacOS/Microsoft Edge'',
      ''/Applications/Chromium.app/Contents/MacOS/Chromium'',
      ''/Applications/Brave Browser.app/Contents/MacOS/Brave Browser'']"

definition linux_candidates :: "string list" where
  "linux_candidates =
     [''/usr/bin/google-chrome-stable'',
      ''/usr/bin/google-chrome'',
      ''/usr/bin/chromium-browser'',
      ''/usr/bin/chromium'',
      ''/usr/bin/microsoft-edge'',
      ''/snap/bin/chromium'',
      ''/usr/bin/brave-browser'']"

definition which_names :: "string list" where
  "which_names =
     [''msedge'', ''microsoft-edge'', ''chrome'', ''google-chrome-stable'',
      ''google-chrome'', ''chromium-browser'', ''chromium'', ''brave-browser'']"

text \<open>The paths that the branch of the platform offers to \<^verbatim>\<open>add_candidate\<close>, in order.\<close>

definition platform_paths :: "world \<Rightarrow> string list" where
  "platform_paths w =
     (let system = str_lower (python w) (platform_system w)
      in if system = ''windows''
         then concat (map (\<lambda>base. map (joinpath w base) known_suffixes) (program_files w))
         else if system = ''darwin'' then mac_candidates
         else linux_candidates)"

definition candidates :: "world \<Rightarrow> string list" where
  "candidates w =
     filter (path_exists w) (platform_paths w)
     @ map the (filter truthy_str (map (which w) which_names))"

definition NO_BROWSER :: string where
  "NO_BROWSER =
     ''No supported headless browser found. Install Edge/Chrome/Chromium or set ''
     @ BROWSER_ENV_VAR @ '' to a custom binary.''"

definition find_browser_binary :: "world \<Rightarrow> pyerr + string" where
  "find_browser_binary w =
     (let env_browser = environ w BROWSER_ENV_VAR
      in if truthy_str env_browser \<and> path_exists w (expanduser w (the env_browser))
         then Inr (expanduser w (the env_browser))
         else (case filter (path_exists w) (candidates w) of
                 [] \<Rightarrow> Inl (FileNotFoundError NO_BROWSER)
               | candidate # rest \<Rightarrow> Inr candidate))"

section \<open>The conversion invoker\<close>

text \<open>
  \<^verbatim>\<open>bytes.decode('utf-8', errors='ignore')\<close>: the well-formed sequences of the input,
  in order; every byte that starts none is dropped. (The bytes that CPython skips
  together with an ill-formed lead byte are continuation bytes, which start nothing.)
\<close>

definition in_range :: "nat \<Rightarrow> nat \<Rightarrow> char \<Rightarrow> bool" where
  "in_range lo hi c = (lo \<le> of_char c \<and> (of_char c :: nat) \<le> hi)"

definition utf8_len :: "string \<Rightarrow> nat" where
  "utf8_len bs =
     (case bs of
        [] \<Rightarrow> 0
      | b # r \<Rightarrow>
          let n = (of_char b :: nat) in
          if n < 0x80 then 1
          else if 0xC2 \<le> n \<and> n \<le> 0xDF then
            (case r of c1 # r1 \<Rightarrow> if in_range 0x80 0xBF c1 then 2 else 0 | _ \<Rightarrow> 0)
          else if 0xE0 \<le> n \<and> n \<le> 0xEF then
            (case r of
               c1 # c2 # r2 \<Rightarrow>
                 if in_range (if n = 0xE0 then 0xA0 else 0x80) (if n = 0xED then 0x9F else 0xBF) c1
                    \<and> in_range 0x80 0xBF c2
                 then 3 else 0
             | _ \<Rightarrow> 0)
          else if 0xF0 \<le> n \<and> n \<le> 0xF4 then
            (case r of
               c1 # c2 # c3 # r3 \<Rightarrow>
                 if in_range (if n = 0xF0 then 0x90 else 0x80) (if n = 0xF4 then 0x8F else 0xBF) c1
                    \<and> in_range 0x80 0xBF c2 \<and> in_range 0x80 0xBF c3
                 then 4 else 0
             | _ \<Rightarrow> 0)
          else 0)"

function decode_utf8_ignore :: "string \<Rightarrow> string" where
  "decode_utf8_ignore [] = []"
| "decode_utf8_ignore (b # bs) =
     (let n = utf8_len (b # bs)
      in if n = 0 then decode_utf8_ignore bs
         else take n (b # bs) @ decode_utf8_ignore (drop (n - 1) bs))"
  by pat_completeness auto
termination
  by (relation "measure length") auto

text \<open>
  \<^verbatim>\<open>run_headless_browser\<close> (lines 299-327). \<^verbatim>\<open>subprocess.run(cmd, check=True)\<close> raises
  \<^verbatim>\<open>CalledProcessError\<close>, which the loop catches, when the process exits with a status other
  than zero; a process that cannot be started raises another exception, which the loop
  lets through.
\<close>

definition commands :: "world \<Rightarrow> string \<Rightarrow> string \<Rightarrow> string \<Rightarrow> string list list" where
  "commands w browser html_path output =
     [[browser, ''--headless=new'', ''--disable-gpu'', ''--print-to-pdf='' @ output,
       ''--print-to-pdf-no-header'', as_uri w html_path],
      [browser, ''--headless'', ''--disable-gpu'', ''--print-to-pdf='' @ output,
       ''--print-to-pdf-no-header'', as_uri w html_path]]"

definition CONVERSION_FAILED :: string where
  "CONVERSION_FAILED = ''Headless browser failed to create the PDF. Output: ''"

fun try_commands :: "world \<Rightarrow> string list list \<Rightarrow> string option \<Rightarrow> world \<times> (pyerr + unit)" where
  "try_commands w [] last_error =
     (w, Inl (RuntimeError (CONVERSION_FAILED @
        (case last_error of Some stderr \<Rightarrow> decode_utf8_ignore stderr | None \<Rightarrow> ''unknown''))))"
| "try_commands w (cmd # cmds) last_error =
     (let w' = w\<lparr>invoked := invoked w @ [cmd]\<rparr>
      in case run_process w (invoked w) cmd of
           Exited status stderr \<Rightarrow>
             if status = 0 then (w', Inr ()) else try_commands w' cmds (Some stderr)
         | SpawnFailed e \<Rightarrow> (w', Inl e))"

definition run_headless_browser ::
  "world \<Rightarrow> string \<Rightarrow> string \<Rightarrow> string \<Rightarrow> world \<times> (pyerr + unit)" where
  "run_headless_browser w browser html_path output =
     try_commands w (commands w browser html_path output) None"

text \<open>\<^verbatim>\<open>build_pdf\<close> (lines 205-214).\<close>

definition build_pdf :: "world \<Rightarrow> account list \<Rightarrow> string \<Rightarrow> string \<Rightarrow> world \<times> (pyerr + unit)" where
  "build_pdf w accounts title output =
     (if \<not> path_exists w (STYLE_PATH w)
      then (w, Inl (FileNotFoundError (''Missing CSS file: '' @ STYLE_PATH w)))
      else case mkdir_error w (parent w output) of
        Some e \<Rightarrow> (w, Inl e)
      | None \<Rightarrow>
        let w1 = w\<lparr>made_dirs := made_dirs w @ [parent w output]\<rparr>;
            pdf_target = resolve w output
        in case render_html w1 accounts title of
             Inl e \<Rightarrow> (w1, Inl e)
           | Inr html_content \<Rightarrow>
               let html_path = with_suffix w pdf_target ''.html''
               in case write_error w html_path of
                    Some e \<Rightarrow> (w1, Inl e)
                  | None \<Rightarrow>
                    let w2 = w1\<lparr>written := written w1 @ [(html_path, html_content)]\<rparr>
                    in case find_browser_binary w2 of
                         Inl e \<Rightarrow> (w2, Inl e)
                       | Inr browser \<Rightarrow> run_headless_browser w2 browser html_path pdf_target)"

section \<open>A runtime for the examples, and what every runtime reads\<close>

text \<open>
  The examples hold ASCII text only. On such text \<^verbatim>\<open>str.lower()\<close> maps the letters A to Z
  and nothing else, and \<^verbatim>\<open>repr\<close> of a str takes double quotes when the text has a single
  quote and no double quote, single quotes otherwise, and escapes the backslash, the
  chosen quote and the control characters.
\<close>

definition lower_char :: "char \<Rightarrow> char" where
  "lower_char c =
     (if CHR ''A'' \<le> c \<and> c \<le> CHR ''Z'' then char_of (of_char c + (32::nat)) else c)"

definition ascii_lower :: "string \<Rightarrow> string" where
  "ascii_lower s = map lower_char s"

definition hex_digit :: "nat \<Rightarrow> char" where
  "hex_digit n = ''0123456789abcdef'' ! (n mod 16)"

definition repr_char :: "char \<Rightarrow> char \<Rightarrow> string" where
  "repr_char q c =
     (if c = CHR 0x5C then [CHR 0x5C, CHR 0x5C]
      else if c = q then [CHR 0x5C, q]
      else if c = CHR 0x09 then [CHR 0x5C, CHR ''t'']
      else if c = CHR 0x0A then [CHR 0x5C, CHR ''n'']
      else if c = CHR 0x0D then [CHR 0x5C, CHR ''r'']
      else if (of_char c :: nat) < 32 \<or> (of_char c :: nat) = 127
        then [CHR 0x5C, CHR ''x'', hex_digit (of_char c div 16), hex_digit (of_char c)]
      else [c])"

definition ascii_repr :: "string \<Rightarrow> string" where
  "ascii_repr s =
     (let q = (if CHR 0x27 \<in> set s \<and> CHR 0x22 \<notin> set s then CHR 0x22 else CHR 0x27)
      in q # concat (map (repr_char q) s) @ [q])"

text \<open>
  The format that \<^verbatim>\<open>datetime.isoformat()\<close> writes,
  \<^verbatim>\<open>YYYY-MM-DD[*HH[:MM[:SS[.fff[fff]]]][+HH:MM[:SS[.ffffff]]]]\<close>, read as the C implementation
  of CPython 3.7 to 3.10 reads it: ASCII digits only, any one character as the
  separator, the fields checked against their ranges by the constructor. CPython 3.11
  and later read these texts to the same result, and other texts besides.
\<close>

definition is_digit :: "char \<Rightarrow> bool" where
  "is_digit c = (CHR ''0'' \<le> c \<and> c \<le> CHR ''9'')"

definition digit_val :: "char \<Rightarrow> nat" where
  "digit_val c = of_char c - 48"

definition parse_digits :: "string \<Rightarrow> nat option" where
  "parse_digits s =
     (if s \<noteq> [] \<and> list_all is_digit s
      then Some (foldl (\<lambda>n c. 10 * n + digit_val c) 0 s) else None)"

definition parse_isoformat_date :: "string \<Rightarrow> (nat \<times> nat \<times> nat) option" where
  "parse_isoformat_date s =
     (if length s \<noteq> 10 \<or> s ! 4 \<noteq> CHR ''-'' \<or> s ! 7 \<noteq> CHR ''-'' then None
      else case (parse_digits (take 4 s), parse_digits (take 2 (drop 5 s)),
                 parse_digits (take 2 (drop 8 s))) of
        (Some y, Some m, Some d) \<Rightarrow> Some (y, m, d)
      | _ \<Rightarrow> None)"

text \<open>\<^verbatim>\<open>HH[:MM[:SS[.fff[fff]]]]\<close>, for the time of day and for the offset.\<close>

definition parse_fraction :: "string \<Rightarrow> nat option" where
  "parse_fraction s =
     (if length s = 6 then parse_digits s
      else if length s = 3 then map_option (\<lambda>n. n * 1000) (parse_digits s)
      else None)"

definition parse_hh_mm_ss_ff :: "string \<Rightarrow> (nat \<times> nat \<times> nat \<times> nat) option" where
  "parse_hh_mm_ss_ff s =
     (case parse_digits (take 2 s) of
        None \<Rightarrow> None
      | Some h \<Rightarrow>
          if length s < 2 then None
          else if length s = 2 then Some (h, 0, 0, 0)
          else if s ! 2 \<noteq> CHR '':'' \<or> length s < 5 then None
          else (case parse_digits (take 2 (drop 3 s)) of
            None \<Rightarrow> None
          | Some m \<Rightarrow>
              if length s = 5 then Some (h, m, 0, 0)
              else if s ! 5 \<noteq> CHR '':'' \<or> length s < 8 then None
              else (case parse_digits (take 2 (drop 6 s)) of
                None \<Rightarrow> None
              | Some sec \<Rightarrow>
                  if length s = 8 then Some (h, m, sec, 0)
                  else if s ! 8 \<noteq> CHR ''.'' then None
                  else map_option (\<lambda>us. (h, m, sec, us)) (parse_fraction (drop 9 s)))))"

definition is_sign :: "char \<Rightarrow> bool" where
  "is_sign c = (c = CHR ''+'' \<or> c = CHR ''-'')"

definition parse_isoformat_time ::
  "string \<Rightarrow> ((nat \<times> nat \<times> nat \<times> nat) \<times> int option) option" where
  "parse_isoformat_time t =
     (let timestr = takeWhile (\<lambda>c. \<not> is_sign c) t;
          rest = dropWhile (\<lambda>c. \<not> is_sign c) t
      in case parse_hh_mm_ss_ff timestr of
        None \<Rightarrow> None
      | Some comps \<Rightarrow>
          (case rest of
            [] \<Rightarrow> Some (comps, None)
          | sg # tzstr \<Rightarrow>
              if length tzstr \<notin> {5, 8, 15} then None
              else (case parse_hh_mm_ss_ff tzstr of
                None \<Rightarrow> None
              | Some (th, tm, ts, tus) \<Rightarrow>
                  Some (comps,
                    Some ((if sg = CHR ''-'' then - 1 else 1) *
                      (((int th * 3600 + int tm * 60 + int ts) * 1000000) + int tus))))))"

definition is_leap :: "nat \<Rightarrow> bool" where
  "is_leap y = (y mod 4 = 0 \<and> (y mod 100 \<noteq> 0 \<or> y mod 400 = 0))"

definition days_in_month :: "nat \<Rightarrow> nat \<Rightarrow> nat" where
  "days_in_month y m =
     (if m = 2 then (if is_leap y then 29 else 28)
      else if m \<in> {4, 6, 9, 11} then 30 else 31)"

text \<open>The range checks of the \<^verbatim>\<open>datetime\<close> and \<^verbatim>\<open>timezone\<close> constructors.\<close>

definition make_datetime ::
  "(nat \<times> nat \<times> nat) \<Rightarrow> ((nat \<times> nat \<times> nat \<times> nat) \<times> int option) \<Rightarrow> datetime option" where
  "make_datetime d t =
     (case (d, t) of ((y, m, dd), ((h, mi, s, us), tz)) \<Rightarrow>
        if 1 \<le> y \<and> y \<le> 9999 \<and> 1 \<le> m \<and> m \<le> 12 \<and> 1 \<le> dd \<and> dd \<le> days_in_month y m
           \<and> h < 24 \<and> mi < 60 \<and> s < 60
           \<and> (case tz of None \<Rightarrow> True | Some off \<Rightarrow> \<bar>off\<bar> < 86400000000)
        then Some \<lparr>year = y, month = m, day = dd, hour = h, minute = mi, second = s,
                   microsecond = us, tzoffset = tz\<rparr>
        else None)"

text \<open>The separator is one code point, that is one to four bytes of the encoding.\<close>

definition separator_width :: "char \<Rightarrow> nat" where
  "separator_width c =
     (let b = (of_char c :: nat)
      in if b < 128 then 1 else if b div 16 = 14 then 3 else if b div 16 = 15 then 4 else 2)"

definition fromisoformat_core :: "string \<Rightarrow> datetime option" where
  "fromisoformat_core s =
     (case parse_isoformat_date (take 10 s) of
        None \<Rightarrow> None
      | Some d \<Rightarrow>
          if length s = 10 then make_datetime d ((0, 0, 0, 0), None)
          else (case parse_isoformat_time (drop (10 + separator_width (s ! 10)) s) of
            None \<Rightarrow> None
          | Some t \<Rightarrow> make_datetime d t))"

definition example_runtime :: runtime where
  "example_runtime =
     \<lparr>str_lower = ascii_lower, str_repr = ascii_repr, fromisoformat = fromisoformat_core,
      pads_year = False\<rparr>"






section \<open>Predicates and functions of the statements\<close>

text \<open>The key under which a sorted entry stands: the pair that line 117 computes.\<close>

definition the_key :: "runtime \<Rightarrow> account \<Rightarrow> string \<times> string" where
  "the_key rt e = (case entry_key rt e of Inr k \<Rightarrow> k | Inl err \<Rightarrow> ([], []))"













text \<open>The record of an item that has no value at all.\<close>

definition default_account :: account where
  "default_account =
     \<lparr>acc_name = JStr ''(untitled)'', acc_type = ''Unknown'', acc_folder = JStr ''No folder'',
      acc_favorite = False, acc_username = JStr [], acc_password = JStr [], acc_totp = JStr [],
      acc_uris = [], acc_notes = JStr [], acc_last_modified = [], acc_created = [],
      acc_fields = []\<rparr>"



text \<open>A small export: three folders (one with an empty name) and four items.\<close>

definition example_export :: json where
  "example_export =
     JObj [
       (''folders'', JList [
          JObj [(''id'', JStr ''f1''), (''name'', JStr ''Work'')],
          JObj [(''id'', JStr ''f2''), (''name'', JStr ''mail'')],
          JObj [(''id'', JStr ''f3''), (''name'', JStr [])]]),
       (''items'', JList [
          JObj [(''name'', JStr ''b''), (''folderId'', JStr ''f1''), (''type'', JInt 1),
                (''login'', JObj [(''username'', JStr ''u''),
                                  (''uris'', JList [JObj [(''uri'', JStr ''http://x'')], JNull])]),
                (''fields'', JList [JObj [(''name'', JStr ''pin''), (''value'', JInt 12)]])],
          JObj [(''name'', JStr ''a''), (''folderId'', JNull), (''type'', JInt 2),
                (''revisionDate'', JStr ''2023-05-01T12:00:00Z'')],
          JObj [(''name'', JStr ''A''), (''folderId'', JStr ''f3'')],
          JObj [(''folderId'', JStr ''f2''), (''favorite'', JBool True)]])]"

definition example_accounts :: "account list" where
  "example_accounts =
     [default_account\<lparr>acc_folder := JStr ''mail'', acc_favorite := True\<rparr>,
      default_account\<lparr>acc_name := JStr ''a'', acc_type := ''Secure Note'',
        acc_last_modified := ''05/01/2023 12:00 PM''\<rparr>,
      default_account\<lparr>acc_name := JStr ''A''\<rparr>,
      default_account\<lparr>acc_name := JStr ''b'', acc_type := ''Login'', acc_folder := JStr ''Work'',
        acc_username := JStr ''u'', acc_uris := [JStr ''http://x''],
        acc_fields := [''pin: 12'']\<rparr>]"

text \<open>
  Hosts for the examples: a Linux host with Chromium, whose browser refuses the flag
  \<^verbatim>\<open>--headless=new\<close> and writes a byte that is no UTF-8 to its standard error.
\<close>

definition posix_join :: "string \<Rightarrow> string list \<Rightarrow> string" where
  "posix_join base parts = base @ concat (map (\<lambda>p. CHR ''/'' # p) parts)"

definition win_join :: "string \<Rightarrow> string list \<Rightarrow> string" where
  "win_join base parts = base @ concat (map (\<lambda>p. CHR 0x5C # p) parts)"

definition replace_suffix :: "string \<Rightarrow> string \<Rightarrow> string" where
  "replace_suffix p s = rev (drop 1 (dropWhile (\<lambda>c. c \<noteq> CHR ''.'') (rev p))) @ s"

definition example_template :: string where
  "example_template = ''<h1>{{title}}</h1><p>{{count}} entries, {{generated}}</p><table>{{rows}}</table>''"

definition linux_host :: world where
  "linux_host =
     \<lparr>python = example_runtime,
      environ = Map.empty,
      platform_system = ''Linux'',
      path_exists = (\<lambda>p. p \<in> set [''/app/templates/layout.html'', ''/app/styles/style.css'',
                                    ''/usr/bin/chromium'']),
      which = (\<lambda>n. if n = ''chromium'' then Some ''/usr/bin/chromium'' else None),
      expanduser = (\<lambda>p. p),
      joinpath = posix_join,
      set_order = remdups,
      parent = (\<lambda>p. ''/out''),
      resolve = (\<lambda>p. p),
      with_suffix = replace_suffix,
      as_uri = (\<lambda>p. ''file://'' @ p),
      read_text = (\<lambda>p. if p = ''/app/templates/layout.html'' then Inr example_template else Inl OSError),
      mkdir_error = (\<lambda>p. None),
      write_error = (\<lambda>p. None),
      now = \<lparr>year = 2024, month = 2, day = 29, hour = 0, minute = 5, second = 0,
              microsecond = 0, tzoffset = None\<rparr>,
      TEMPLATE_PATH = ''/app/templates/layout.html'',
      STYLE_PATH = ''/app/styles/style.css'',
      run_process = (\<lambda>history cmd.
         if cmd ! 1 = ''--headless'' then Exited 0 []
         else Exited 1 [CHR ''n'', CHR 0xFF, CHR ''o'']),
      made_dirs = [],
      written = [],
      invoked = []\<rparr>"

text \<open>
  A Windows host with Edge installed for the machine and for the user, on a run in which
  the set of the three roots is iterated from its last element to its first.
\<close>

definition windows_host :: world where
  "windows_host =
     linux_host\<lparr>
       environ := [''PROGRAMFILES'' \<mapsto> ''C:'' @ [CHR 0x5C] @ ''Program Files'',
                   ''LOCALAPPDATA'' \<mapsto> ''C:'' @ [CHR 0x5C] @ ''Local''],
       platform_system := ''Windows'',
       path_exists := (\<lambda>p. p \<in> set
          [win_join (''C:'' @ [CHR 0x5C] @ ''Program Files'')
             [''Microsoft'', ''Edge'', ''Application'', ''msedge.exe''],
           win_join (''C:'' @ [CHR 0x5C] @ ''Local'')
             [''Microsoft'', ''Edge'', ''Application'', ''msedge.exe'']]),
       which := (\<lambda>n. None),
       joinpath := win_join,
       set_order := (\<lambda>xs. rev (remdups xs))\<rparr>"

text \<open>
  The order of the roots as the spec lists them: Program Files, Program Files (x86),
  the local application data.
\<close>

definition listed_program_files :: "world \<Rightarrow> string list" where
  "listed_program_files w =
     map the (filter truthy_str
       [environ w ''PROGRAMFILES'', environ w ''PROGRAMFILES(X86)'', environ w ''LOCALAPPDATA''])"

definition listed_windows_paths :: "world \<Rightarrow> string list" where
  "listed_windows_paths w =
     concat (map (\<lambda>base. map (joinpath w base) known_suffixes) (listed_program_files w))"




text \<open>An account whose name is the text of a placeholder.\<close>

definition placeholder_account :: account where
  "placeholder_account = default_account\<lparr>acc_name := JStr ''{{style_href}}''\<rparr>"

definition placeholder_document :: string where
  "placeholder_document =
     (case render_html linux_host [placeholder_account] ''T'' of Inr doc \<Rightarrow> doc | Inl e \<Rightarrow> [])"

text \<open>
  Reading markup: a tag runs from a \<^verbatim>\<open><\<close> to the next \<^verbatim>\<open>>\<close>; every other character is
  text. \<open>pieces\<close> lists the tags and the characters of the text in order, and
  \<open>tag_state\<close> tells whether the end of the input is inside a tag.
\<close>

datatype piece = Tag string | Chr char

fun pieces :: "string option \<Rightarrow> string \<Rightarrow> piece list" where
  "pieces None [] = []"
| "pieces (Some t) [] = []"
| "pieces None (c # cs) =
     (if c = CHR ''<'' then pieces (Some [c]) cs else Chr c # pieces None cs)"
| "pieces (Some t) (c # cs) =
     (if c = CHR ''>'' then Tag (t @ [c]) # pieces None cs else pieces (Some (t @ [c])) cs)"

fun tag_state :: "string option \<Rightarrow> string \<Rightarrow> string option" where
  "tag_state q [] = q"
| "tag_state None (c # cs) = (if c = CHR ''<'' then tag_state (Some [c]) cs else tag_state None cs)"
| "tag_state (Some t) (c # cs) =
     (if c = CHR ''>'' then tag_state None cs else tag_state (Some (t @ [c])) cs)"

text \<open>The tags that the literals of the row markup hold.\<close>

definition ROW_TAGS :: "string list" where
  \<open>ROW_TAGS =
     [''<tr>'', ''</tr>'', ''<td>'', ''</td>'', ''</div>'', ''<span>'', ''</span>'',
      ''<div class="entry-name">'', ''<div class="entry-meta">'',
      ''<span class="tag">'', ''<span class="tag tag--favorite">'',
      ''<div class="credentials">'', ''<div class="credentials-extra">'',
      ''<div class="credential-block credential-block--user">'',
      ''<div class="credential-block credential-block--password">'',
      ''<span class="credential-label">'', ''<span class="credential-value">'']\<close>

definition special :: "char \<Rightarrow> bool" where
  "special c = (c = CHR ''<'' \<or> c = CHR ''>'' \<or> c = CHR 0x22 \<or> c = CHR 0x27)"

definition ENTITIES :: "string list" where
  "ENTITIES = [''&amp;'', ''&lt;'', ''&gt;'', ''&quot;'', ''&#x27;'']"

text \<open>Every \<^verbatim>\<open>&\<close> begins one of the five entities.\<close>

fun amp_ok :: "string \<Rightarrow> bool" where
  "amp_ok [] = True"
| "amp_ok (c # cs) =
     ((if c = CHR ''&'' then list_ex (\<lambda>e. prefix e (c # cs)) ENTITIES else True) \<and> amp_ok cs)"

fun allowed_piece :: "piece \<Rightarrow> bool" where
  "allowed_piece (Tag t) = (t \<in> set ROW_TAGS)"
| "allowed_piece (Chr c) = (\<not> special c)"

text \<open>
  Markup into which no content has broken: it ends outside a tag, its tags are tags
  of the row markup, its text has none of the special characters raw, and every
  \<^verbatim>\<open>&\<close> is an entity.
\<close>

definition safe_markup :: "string \<Rightarrow> bool" where
  "safe_markup s =
     (tag_state None s = None \<and> list_all allowed_piece (pieces None s) \<and> amp_ok s)"






definition entry_name_cell :: "string \<Rightarrow> string" where
  \<open>entry_name_cell s = ''<div class="entry-name">'' @ s @ ''</div>''\<close>

text \<open>The override applies: the variable is set, not empty, and names a path that exists.\<close>

definition override_applies :: "world \<Rightarrow> bool" where
  "override_applies w =
     (case environ w BROWSER_ENV_VAR of
        None \<Rightarrow> False
      | Some p \<Rightarrow> p \<noteq> [] \<and> path_exists w (expanduser w p))"

section \<open>Properties of the normalizer\<close>

subsection \<open>Timestamps\<close>























subsection \<open>The order of the accounts\<close>

lemma decorate_eq:
  "decorate rt es = Inr kes \<Longrightarrow>
     kes = map (\<lambda>e. (the_key rt e, e)) es \<and> (\<forall>e \<in> set es. entry_key rt e = Inr (the_key rt e))"
  by (induction es arbitrary: kes) (auto simp: the_key_def split: sum.splits)

lemma insort_key_decorated:
  "\<forall>p \<in> set ys. fst p = f (snd p) \<Longrightarrow>
     map snd (insort_key fst (f x, x) ys) = insort_key f x (map snd ys)"
  by (induction ys) auto

lemma set_insort_decorated:
  "\<forall>p \<in> set ys. fst p = f (snd p) \<Longrightarrow> \<forall>p \<in> set (insort_key fst (f x, x) ys). fst p = f (snd p)"
  by (simp add: set_insort_key)

lemma sort_key_decorated:
  "map snd (sort_key fst (map (\<lambda>e. (f e, e)) xs)) = sort_key f xs
   \<and> (\<forall>p \<in> set (sort_key fst (map (\<lambda>e. (f e, e)) xs)). fst p = f (snd p))"
  by (induction xs) (auto simp: sort_key_def insort_key_decorated set_insort_key)

lemma sort_accounts_eq:
  assumes "sort_accounts rt es = Inr r"
  shows "r = sort_key (the_key rt) es" and "\<forall>e \<in> set es. entry_key rt e = Inr (the_key rt e)"
  using assms decorate_eq[of rt es] sort_key_decorated[of "the_key rt" es]
  by (auto simp: sort_accounts_def rbind_def split: sum.splits)

lemma sorted_precedes:
  fixes ks :: "('a::linorder) list"
  assumes "sorted ks" "i < length ks" "j < length ks" "ks ! i < ks ! j"
  shows "i < j"
proof (rule ccontr)
  assume "\<not> i < j"
  then have "j \<le> i" by simp
  with assms(1,2) have "ks ! j \<le> ks ! i" by (simp add: sorted_iff_nth_mono)
  with assms(4) show False by simp
qed

lemma account_of_item_folder:
  assumes "account_of_item rt folders (JObj kvs) = Inr a"
      and "key_of (obj_lookup kvs ''folderId'' JNull) = Inr k"
  shows "acc_folder a = py_or (case folders k of Some n \<Rightarrow> n | None \<Rightarrow> JNull) (JStr ''No folder'')"
proof -
  from assms(1) obtain login where "py_or (obj_lookup kvs ''login'' JNull) (JObj []) = JObj login"
    by (cases "py_or (obj_lookup kvs ''login'' JNull) (JObj [])") (simp_all add: account_of_item_def)
  with assms show ?thesis
    by (simp add: account_of_item_def rbind_def split: sum.splits) auto
qed

lemma unresolved_folder:
  assumes "account_of_item rt folders (JObj kvs) = Inr a"
      and "key_of (obj_lookup kvs ''folderId'' JNull) = Inr k" and "folders k = None"
  shows "acc_folder a = JStr ''No folder''"
  using account_of_item_folder[OF assms(1,2)] assms(3) by (simp add: py_or_def)

lemma example_export_accounts: "collect_accounts example_runtime example_export = Inr example_accounts"
  by code_simp

text \<open>
  C4. Whatever \<^verbatim>\<open>str.lower()\<close> the runtime has, the list that \<^verbatim>\<open>collect_accounts\<close>
  returns is the list of the loop, sorted by the pair (folder lowercased, name
  lowercased): the keys ascend; an entry with a smaller folder key precedes, and on
  equal folder keys one with a smaller name key; entries with the same pair keep the
  order of their items; an unresolved folder id gives the folder \<^verbatim>\<open>"No folder"\<close>, which
  is sorted under that text like any other name.
\<close>

theorem collect_accounts_sorted:
  assumes "collect_accounts rt payload = Inr accounts"
  shows "\<exists>unsorted. collect_unsorted rt payload = Inr unsorted
     \<and> (\<forall>e \<in> set accounts. \<exists>f n. acc_folder e = JStr f \<and> acc_name e = JStr n
            \<and> the_key rt e = (str_lower rt f, str_lower rt n))
     \<and> sorted (map (the_key rt) accounts)
     \<and> (\<forall>i j. i < length accounts \<and> j < length accounts
            \<and> fst (the_key rt (accounts ! i)) < fst (the_key rt (accounts ! j)) \<longrightarrow> i < j)
     \<and> (\<forall>i j. i < length accounts \<and> j < length accounts
            \<and> fst (the_key rt (accounts ! i)) = fst (the_key rt (accounts ! j))
            \<and> snd (the_key rt (accounts ! i)) < snd (the_key rt (accounts ! j)) \<longrightarrow> i < j)
     \<and> (\<forall>k. filter (\<lambda>e. the_key rt e = k) accounts = filter (\<lambda>e. the_key rt e = k) unsorted)
     \<and> mset accounts = mset unsorted
     \<and> (\<forall>folders kvs k a. account_of_item rt folders (JObj kvs) = Inr a
            \<and> key_of (obj_lookup kvs ''folderId'' JNull) = Inr k \<and> folders k = None
            \<longrightarrow> acc_folder a = JStr ''No folder'')"
proof -
  from assms obtain unsorted where u: "collect_unsorted rt payload = Inr unsorted"
    and s: "sort_accounts rt unsorted = Inr accounts"
    by (auto simp: collect_accounts_def rbind_def split: sum.splits)
  from sort_accounts_eq[OF s] have eq: "accounts = sort_key (the_key rt) unsorted"
    and keys: "\<forall>e \<in> set unsorted. entry_key rt e = Inr (the_key rt e)" by auto
  have strs: "\<exists>f n. acc_folder e = JStr f \<and> acc_name e = JStr n
      \<and> the_key rt e = (str_lower rt f, str_lower rt n)"
    if "e \<in> set accounts" for e
  proof -
    from that eq have "e \<in> set unsorted" by simp
    with keys have "entry_key rt e = Inr (the_key rt e)" by blast
    then show ?thesis
      by (auto simp: entry_key_def split: json.splits)
  qed
  have srt: "sorted (map (the_key rt) accounts)" by (simp add: eq)
  have fst_lt: "i < j" if "i < length accounts" "j < length accounts"
      "fst (the_key rt (accounts ! i)) < fst (the_key rt (accounts ! j))" for i j
  proof -
    from that(3) have "the_key rt (accounts ! i) < the_key rt (accounts ! j)"
      by (simp add: less_prod_def')
    with sorted_precedes[OF srt, of i j] that(1,2) show ?thesis by simp
  qed
  have snd_lt: "i < j" if "i < length accounts" "j < length accounts"
      "fst (the_key rt (accounts ! i)) = fst (the_key rt (accounts ! j))"
      "snd (the_key rt (accounts ! i)) < snd (the_key rt (accounts ! j))" for i j
  proof -
    from that(3,4) have "the_key rt (accounts ! i) < the_key rt (accounts ! j)"
      by (simp add: less_prod_def')
    with sorted_precedes[OF srt, of i j] that(1,2) show ?thesis by simp
  qed
  have stable: "filter (\<lambda>e. the_key rt e = k) accounts = filter (\<lambda>e. the_key rt e = k) unsorted"
    for k
    by (simp add: eq sort_key_stable)
  have perm: "mset accounts = mset unsorted" by (simp add: eq)
  have sentinel: "acc_folder a = JStr ''No folder''"
    if "account_of_item rt folders (JObj kvs) = Inr a
        \<and> key_of (obj_lookup kvs ''folderId'' JNull) = Inr k \<and> folders k = None"
    for folders kvs k a
    using unresolved_folder[of rt folders kvs a k] that by simp
  from u strs srt fst_lt snd_lt stable perm sentinel show ?thesis by blast
qed

theorem collect_accounts_sorted_witness:
  "collect_accounts example_runtime example_export = Inr example_accounts
   \<and> map (the_key example_runtime) example_accounts =
       [(''mail'', ''(untitled)''), (''no folder'', ''a''), (''no folder'', ''a''), (''work'', ''b'')]
   \<and> map acc_name example_accounts = [JStr ''(untitled)'', JStr ''a'', JStr ''A'', JStr ''b'']
   \<and> sorted (map (the_key example_runtime) example_accounts)"
proof -
  have keys: "map (the_key example_runtime) example_accounts =
      [(''mail'', ''(untitled)''), (''no folder'', ''a''), (''no folder'', ''a''), (''work'', ''b'')]"
    by code_simp
  have names: "map acc_name example_accounts = [JStr ''(untitled)'', JStr ''a'', JStr ''A'', JStr ''b'']"
    by code_simp
  from collect_accounts_sorted[OF example_export_accounts]
  have "sorted (map (the_key example_runtime) example_accounts)" by blast
  with example_export_accounts keys names show ?thesis by simp
qed

subsection \<open>Folders without a name\<close>



subsection \<open>Exports on which the normalizer raises nothing\<close>























section \<open>Properties of the renderer\<close>

subsection \<open>Replacing placeholders\<close>

lemma sublist_app_right: "sublist x b \<Longrightarrow> sublist x (a @ b)"
  by (simp add: sublist_append)

lemma sublist_app_left: "sublist x a \<Longrightarrow> sublist x (a @ b)"
  by (simp add: sublist_append)












lemma render_html_eq:
  assumes "path_exists w (TEMPLATE_PATH w)" "read_text w (TEMPLATE_PATH w) = Inr template"
      and "build_rows (python w) accounts = Inr rows"
  shows "render_html w accounts title =
     Inr (py_replace ''{{style_href}}'' (as_uri w (STYLE_PATH w))
           (py_replace ''{{rows}}'' (if rows \<noteq> [] then rows else EMPTY_ROW)
             (py_replace ''{{count}}'' (str_int (int (length accounts)))
               (py_replace ''{{generated}}'' (strftime_fmt (python w) (now w))
                 (py_replace ''{{title}}'' (escape title) template)))))"
  using assms by (simp add: render_html_def rbind_def substitute_def replacements_def)





lemma render_html_Inr:
  assumes "render_html w accounts title = Inr doc"
  shows "\<exists>rows template. build_rows (python w) accounts = Inr rows
           \<and> read_text w (TEMPLATE_PATH w) = Inr template
           \<and> path_exists w (TEMPLATE_PATH w)"
  using assms by (auto simp: render_html_def rbind_def split: if_splits sum.splits)




lemma placeholder_run:
  "render_html linux_host [placeholder_account] ''T'' = Inr placeholder_document"
  by code_simp

lemma placeholder_facts:
  "case build_rows (python linux_host) [placeholder_account] of
     Inr rows \<Rightarrow> sublist ''{{style_href}}'' rows | Inl e \<Rightarrow> False"
  "\<not> sublist ''{{style_href}}'' placeholder_document"
  "sublist (entry_name_cell (as_uri linux_host (STYLE_PATH linux_host))) placeholder_document"
  by code_simp+

text \<open>
  C10. The document is the template after five replacements made one after the other,
  for title, generated, count, rows and style_href in this order, each on the whole
  text that the one before left. So a placeholder in the content is replaced too: for
  the account named \<^verbatim>\<open>{{style_href}}\<close> the rows hold that text, and the document
  holds the address of the stylesheet in the name cell instead.
\<close>

theorem sequential_substitution:
  "(render_html w accounts title = Inr doc \<longrightarrow>
      (\<exists>rows template. build_rows (python w) accounts = Inr rows
         \<and> read_text w (TEMPLATE_PATH w) = Inr template
         \<and> doc =
             py_replace ''{{style_href}}'' (as_uri w (STYLE_PATH w))
               (py_replace ''{{rows}}'' (if rows \<noteq> [] then rows else EMPTY_ROW)
                 (py_replace ''{{count}}'' (str_int (int (length accounts)))
                   (py_replace ''{{generated}}'' (strftime_fmt (python w) (now w))
                     (py_replace ''{{title}}'' (escape title) template))))))
   \<and> (case build_rows (python linux_host) [placeholder_account] of
         Inr rows \<Rightarrow> sublist ''{{style_href}}'' rows | Inl e \<Rightarrow> False)
   \<and> render_html linux_host [placeholder_account] ''T'' = Inr placeholder_document
   \<and> \<not> sublist ''{{style_href}}'' placeholder_document
   \<and> sublist (entry_name_cell (as_uri linux_host (STYLE_PATH linux_host))) placeholder_document"
proof -
  have chain: "\<exists>rows template. build_rows (python w) accounts = Inr rows
         \<and> read_text w (TEMPLATE_PATH w) = Inr template
         \<and> doc =
             py_replace ''{{style_href}}'' (as_uri w (STYLE_PATH w))
               (py_replace ''{{rows}}'' (if rows \<noteq> [] then rows else EMPTY_ROW)
                 (py_replace ''{{count}}'' (str_int (int (length accounts)))
                   (py_replace ''{{generated}}'' (strftime_fmt (python w) (now w))
                     (py_replace ''{{title}}'' (escape title) template))))"
    if run: "render_html w accounts title = Inr doc"
  proof -
    from render_html_Inr[OF run] obtain rows template where
      r: "build_rows (python w) accounts = Inr rows" and t: "read_text w (TEMPLATE_PATH w) = Inr template"
      and e: "path_exists w (TEMPLATE_PATH w)" by blast
    from render_html_eq[OF e t r, of title] run r t show ?thesis by simp
  qed
  from chain placeholder_run placeholder_facts show ?thesis by blast
qed

theorem sequential_substitution_witness:
  "render_html linux_host [placeholder_account] ''T'' = Inr placeholder_document
   \<and> (\<exists>rows template. build_rows (python linux_host) [placeholder_account] = Inr rows
        \<and> read_text linux_host (TEMPLATE_PATH linux_host) = Inr template
        \<and> placeholder_document =
            py_replace ''{{style_href}}'' (as_uri linux_host (STYLE_PATH linux_host))
              (py_replace ''{{rows}}'' (if rows \<noteq> [] then rows else EMPTY_ROW)
                (py_replace ''{{count}}'' (str_int (int (length [placeholder_account])))
                  (py_replace ''{{generated}}'' (strftime_fmt (python linux_host) (now linux_host))
                    (py_replace ''{{title}}'' (escape ''T'') template)))))
   \<and> py_replace ''{{title}}'' ''T'' ''{{title}} and {{title}}'' = ''T and T''"
proof -
  have twice: "py_replace ''{{title}}'' ''T'' ''{{title}} and {{title}}'' = ''T and T''"
    by code_simp
  from sequential_substitution[of linux_host "[placeholder_account]" "''T''" placeholder_document]
    placeholder_run twice
  show ?thesis by blast
qed

subsection \<open>Escaping\<close>

lemma tag_state_append: "tag_state q (a @ b) = tag_state (tag_state q a) b"
  by (induction q a rule: tag_state.induct) auto

lemma pieces_append: "pieces q (a @ b) = pieces q a @ pieces (tag_state q a) b"
  by (induction q a rule: pieces.induct) auto

lemma list_ex_prefix_append:
  "list_ex (\<lambda>e. prefix e s) es \<Longrightarrow> list_ex (\<lambda>e. prefix e (s @ b)) es"
  by (induction es) (auto simp: prefix_def)

lemma amp_ok_append: "amp_ok a \<Longrightarrow> amp_ok b \<Longrightarrow> amp_ok (a @ b)"
proof (induction a)
  case Nil
  then show ?case by simp
next
  case (Cons c a)
  then show ?case using list_ex_prefix_append[of "c # a" ENTITIES b] by auto
qed

lemma safe_Nil [simp]: "safe_markup []"
  by (simp add: safe_markup_def)

lemma safe_append: "safe_markup a \<Longrightarrow> safe_markup b \<Longrightarrow> safe_markup (a @ b)"
  by (simp add: safe_markup_def tag_state_append pieces_append amp_ok_append)




lemma safe_concat: "list_all safe_markup xs \<Longrightarrow> safe_markup (concat xs)"
  by (induction xs) (simp_all add: safe_append)















lemma sublist_concat_mem: "x \<in> set xs \<Longrightarrow> sublist x (concat xs)"
  by (induction xs) (auto intro: sublist_app_left sublist_app_right)






















section \<open>Properties of the locator and the invoker\<close>

lemma try_commands_run_process [simp]:
  "run_process (w\<lparr>invoked := i\<rparr>) = run_process w"
  by simp




lemma find_browser_binary_override:
  assumes "environ w BROWSER_ENV_VAR = Some p" "p \<noteq> []" "path_exists w (expanduser w p)"
  shows "find_browser_binary w = Inr (expanduser w p)"
  using assms by (simp add: find_browser_binary_def truthy_str_def)

lemma override_applies_iff:
  "override_applies w \<longleftrightarrow>
     truthy_str (environ w BROWSER_ENV_VAR) \<and> path_exists w (expanduser w (the (environ w BROWSER_ENV_VAR)))"
  by (auto simp: override_applies_def truthy_str_def split: option.splits)

lemma find_browser_binary_search:
  assumes "\<not> override_applies w"
  shows "find_browser_binary w =
     (case filter (path_exists w) (candidates w) of
        [] \<Rightarrow> Inl (FileNotFoundError NO_BROWSER)
      | candidate # rest \<Rightarrow> Inr candidate)"
  using assms unfolding override_applies_iff
  by (auto simp: find_browser_binary_def Let_def)

lemma filter_first:
  "filter P xs = y # ys \<Longrightarrow>
     \<exists>i < length xs. xs ! i = y \<and> P y \<and> (\<forall>j < i. \<not> P (xs ! j))"
proof (induction xs)
  case Nil
  then show ?case by simp
next
  case (Cons x xs)
  show ?case
  proof (cases "P x")
    case True
    with Cons.prems have "x = y" by simp
    with True show ?thesis by (intro exI[of _ 0]) simp
  next
    case False
    with Cons.prems have "filter P xs = y # ys" by simp
    from Cons.IH[OF this] obtain i where i: "i < length xs" "xs ! i = y" "P y"
      "\<forall>j < i. \<not> P (xs ! j)" by blast
    have "\<forall>j < Suc i. \<not> P ((x # xs) ! j)"
    proof (intro allI impI)
      fix j assume "j < Suc i"
      then show "\<not> P ((x # xs) ! j)" using False i(4) by (cases j) simp_all
    qed
    with i show ?thesis by (intro exI[of _ "Suc i"]) simp
  qed
qed

lemma find_browser_binary_first_existing:
  assumes "\<not> override_applies w" "find_browser_binary w = Inr p"
  shows "\<exists>i < length (candidates w). candidates w ! i = p \<and> path_exists w p
           \<and> (\<forall>j < i. \<not> path_exists w (candidates w ! j))"
proof -
  from assms obtain rest where "filter (path_exists w) (candidates w) = p # rest"
    by (auto simp: find_browser_binary_search split: list.splits)
  from filter_first[OF this] show ?thesis .
qed

lemma find_browser_binary_not_found:
  assumes "\<not> override_applies w"
      and "\<forall>p \<in> set (platform_paths w). \<not> path_exists w p"
      and "\<forall>n \<in> set which_names. which w n = None"
  shows "find_browser_binary w = Inl (FileNotFoundError NO_BROWSER)"
proof -
  from assms(2) have "filter (path_exists w) (platform_paths w) = []"
    by (simp add: filter_empty_conv)
  moreover from assms(3) have "filter truthy_str (map (which w) which_names) = []"
    by (auto simp: filter_empty_conv truthy_str_def)
  ultimately have "candidates w = []" by (simp add: candidates_def)
  with assms(1) show ?thesis by (simp add: find_browser_binary_search)
qed

lemma find_browser_binary_frame [simp]:
  "find_browser_binary (w\<lparr>made_dirs := d\<rparr>) = find_browser_binary w"
  "find_browser_binary (w\<lparr>written := wr\<rparr>) = find_browser_binary w"
  by (simp_all add: find_browser_binary_def candidates_def platform_paths_def program_files_def
      Let_def)

lemma render_html_frame [simp]:
  "render_html (w\<lparr>made_dirs := d\<rparr>) = render_html w"
  by (simp add: render_html_def replacements_def fun_eq_iff)

lemma build_pdf_no_browser:
  assumes "find_browser_binary w = Inl e"
  shows "invoked (fst (build_pdf w accounts title output)) = invoked w
         \<and> (\<exists>e'. snd (build_pdf w accounts title output) = Inl e')"
  using assms by (simp add: build_pdf_def Let_def split: sum.splits option.splits)

text \<open>
  C6, the part that the code breaks. On Windows the three roots go through a set
  literal before the loop, so the order in which they are searched is the order in
  which that set is iterated, not the listed one. On the host \<open>windows_host\<close> the
  same roots are searched as the spec lists, but the browser returned is the one under
  the local application data, while the first existing path in the listed order is the
  one under Program Files.
\<close>

theorem windows_roots_order:
  "find_browser_binary windows_host
     = Inr (win_join (''C:'' @ [CHR 0x5C] @ ''Local'') [''Microsoft'', ''Edge'', ''Application'', ''msedge.exe''])
   \<and> hd (filter (path_exists windows_host) (listed_windows_paths windows_host))
     = win_join (''C:'' @ [CHR 0x5C] @ ''Program Files'') [''Microsoft'', ''Edge'', ''Application'', ''msedge.exe'']
   \<and> mset (program_files windows_host) = mset (listed_program_files windows_host)"
  by code_simp



end
